theory Spec2Isabelle
  imports Complex_Main
begin

section \<open>JavaScript strings\<close>

text \<open>
  A JavaScript string is modelled as a \<^typ>\<open>string\<close>, one \<^typ>\<open>char\<close> per code unit
  below 256. \<open>undefined\<close> and \<open>null\<close> are \<open>None\<close> of an option type.
\<close>

text \<open>The white space and line terminators that \<open>String.prototype.trim\<close> and the
  regular expression class \<open>\s\<close> recognise among the code units below 256.\<close>

definition is_js_whitespace :: "char \<Rightarrow> bool" where
  "is_js_whitespace c =
     (c = CHR 0x09 \<or> c = CHR 0x0A \<or> c = CHR 0x0B \<or> c = CHR 0x0C \<or> c = CHR 0x0D
      \<or> c = CHR 0x20 \<or> c = CHR 0xA0)"

definition trim :: "string \<Rightarrow> string" where
  "trim s = rev (dropWhile is_js_whitespace (rev (dropWhile is_js_whitespace s)))"

text \<open>\<open>!x?.trim()\<close>: true when \<open>x\<close> is undefined or trims to the empty string.\<close>

definition not_trimmed :: "string option \<Rightarrow> bool" where
  "not_trimmed x = (case x of None \<Rightarrow> True | Some s \<Rightarrow> trim s = [])"

definition lower_char :: "char \<Rightarrow> char" where
  "lower_char c =
     (let n = (of_char c :: nat)
      in if (65 \<le> n \<and> n \<le> 90) \<or> (192 \<le> n \<and> n \<le> 222 \<and> n \<noteq> 215)
         then char_of (n + 32) else c)"

definition toLowerCase :: "string \<Rightarrow> string" where
  "toLowerCase s = map lower_char s"

definition endsWith :: "string \<Rightarrow> string \<Rightarrow> bool" where
  "endsWith s suffix =
     (length suffix \<le> length s \<and> drop (length s - length suffix) s = suffix)"

text \<open>A file name ends in \<open>.pdf\<close>, in any mix of upper and lower case.\<close>

definition has_pdf_extension :: "string \<Rightarrow> bool" where
  "has_pdf_extension n =
     (case rev n of
        c # b # a # dot # _ \<Rightarrow>
          dot = CHR ''.'' \<and> (a = CHR ''p'' \<or> a = CHR ''P'') \<and> (b = CHR ''d'' \<or> b = CHR ''D'')
          \<and> (c = CHR ''f'' \<or> c = CHR ''F'')
      | _ \<Rightarrow> False)"

text \<open>\<open>s.replace(/\s+/g, '_')\<close>: every maximal run of white space becomes one underscore.
  \<open>in_run\<close> says that the code unit before was white space of a run already replaced.\<close>

fun replace_runs :: "bool \<Rightarrow> string \<Rightarrow> string" where
  "replace_runs in_run [] = []"
| "replace_runs in_run (c # cs) =
     (if is_js_whitespace c
      then (if in_run then replace_runs True cs else CHR ''_'' # replace_runs True cs)
      else c # replace_runs False cs)"

definition replace_whitespace_runs :: "string \<Rightarrow> string" where
  "replace_whitespace_runs s = replace_runs False s"

text \<open>\<open>a || b\<close> on strings: the empty string and \<open>undefined\<close> are falsy.\<close>

definition or_string :: "string option \<Rightarrow> string \<Rightarrow> string" where
  "or_string a b = (case a of None \<Rightarrow> b | Some s \<Rightarrow> if s = [] then b else s)"

text \<open>\<open>a || b\<close> on numbers: \<open>0\<close> and \<open>undefined\<close> are falsy. Scores are modelled as
  reals; the only property of a number the service looks at is whether it is zero.\<close>

definition or_number :: "real option \<Rightarrow> real \<Rightarrow> real" where
  "or_number a b = (case a of None \<Rightarrow> b | Some x \<Rightarrow> if x = 0 then b else x)"

section \<open>Errors (utils/error-handler.ts, types/errors.ts)\<close>

datatype error_type = network | validation | processing | filesystem | auth | unknown

text \<open>\<open>AppError\<close> without its \<open>timestamp\<close> (the wall clock) and its free-form \<open>context\<close>.\<close>

record app_error =
  etype :: error_type
  message :: string
  details :: "string option"
  code :: "string option"
  recoverable :: bool
  suggestedAction :: "string option"

record validation_error = app_error +
  field :: "string option"
  validationRules :: "string list option"

text \<open>What a \<open>throw\<close> can carry into a \<open>catch\<close> block: an \<open>Error\<close> instance (message and
  stack), a string, or another object (here the plain object built by
  \<open>createValidationError\<close>).\<close>

datatype thrown =
    ThrownError string "string option"
  | ThrownString string
  | ThrownObject validation_error

text \<open>\<open>ErrorHandler.createError(type, message, options)\<close>; the four arguments after the
  message are the fields of \<open>options\<close> (\<open>recoverable ?? true\<close>).\<close>

definition createError ::
  "error_type \<Rightarrow> string \<Rightarrow> string option \<Rightarrow> string option \<Rightarrow> bool option \<Rightarrow> string option
   \<Rightarrow> app_error" where
  "createError t msg opt_details opt_code opt_recoverable opt_suggestedAction =
     \<lparr>etype = t, message = msg, details = opt_details, code = opt_code,
      recoverable = (case opt_recoverable of None \<Rightarrow> True | Some b \<Rightarrow> b),
      suggestedAction = opt_suggestedAction\<rparr>"

text \<open>\<open>ErrorHandler.createValidationError(message, field)\<close>; no caller passes the third
  argument \<open>validationRules\<close>.\<close>

definition createValidationError :: "string \<Rightarrow> string option \<Rightarrow> validation_error" where
  "createValidationError msg fld =
     \<lparr>etype = validation, message = msg, details = None, code = None, recoverable = True,
      suggestedAction = Some ''Please correct the highlighted fields and try again.'',
      field = fld, validationRules = None\<rparr>"

text \<open>\<open>ErrorHandler.fromUnknown\<close>. \<open>stringify\<close> stands for \<open>JSON.stringify\<close> on the thrown
  object.\<close>

definition fromUnknown :: "(validation_error \<Rightarrow> string) \<Rightarrow> thrown \<Rightarrow> app_error" where
  "fromUnknown stringify error =
     (case error of
        ThrownError msg stack \<Rightarrow>
          createError unknown msg stack None (Some True)
            (Some ''Please try again or contact support if the problem persists.'')
      | ThrownString s \<Rightarrow> createError unknown s None None None None
      | ThrownObject obj \<Rightarrow>
          createError unknown ''An unexpected error occurred'' (Some (stringify obj)) None
            (Some True) None)"

text \<open>The \<open>TypeError\<close> raised by reading property \<open>prop\<close> of \<open>undefined\<close> (message text
  as V8 words it; the stack is left out).\<close>

definition type_error :: "string \<Rightarrow> thrown" where
  "type_error prop =
     ThrownError
       (''Cannot read properties of undefined (reading '' @ [CHR 0x27] @ prop @ [CHR 0x27] @ '')'')
       None"

section \<open>Classification types (types/classification.ts, types/index.ts)\<close>

text \<open>\<open>ClassificationConfig\<close> without the free-form \<open>rerankingParams\<close>, which nothing
  reads. \<open>topKCandidates\<close> is an integer: the slider is its only source.\<close>

record classification_config =
  useReranking :: bool
  rerankingModel :: "string option"
  useAttributeValidation :: bool
  topKCandidates :: int

record classification_request =
  datasetId :: "string option"
  config :: "classification_config option"

record classify_text_request = classification_request +
  request_text :: "string option"

text \<open>A browser \<open>File\<close>: the two properties the service reads.\<close>

record js_file =
  file_name :: string
  file_size :: nat

record classify_pdf_request = classification_request +
  request_file :: "js_file option"

datatype node_type = T_condition | T_AND | T_OR

datatype evaluation_tree_node =
  EvaluationTreeNode
    (ntype: node_type)
    (satisfied: "bool option")
    (condition: "string option")
    (children: "evaluation_tree_node list option")
    (skipped: "bool option")
    (node_error: "string option")

record class_definition =
  class_id :: string
  class_name :: string
  class_description :: "string option"

record classification_scores =
  similarity :: real
  rerank :: "real option"
  attribute :: "real option"

record classification_alternative =
  alt_class :: class_definition
  alt_confidence :: real
  scores :: classification_scores

text \<open>\<open>Record<string, any>\<close> values are kept as their JSON text, apart from the entries
  the front end reads.\<close>

record evaluation_details =
  evaluation_tree :: "evaluation_tree_node option"
  other_details :: "(string \<times> string) list"

record attribute_validation_result =
  conditionsMet :: "string list"
  conditionsNotMet :: "string list"
  overallScore :: real
  validation_details :: evaluation_details
  evaluationTree :: "evaluation_tree_node option"

record pdf_meta =
  extracted_text_preview :: "string option"
  page_count :: "nat option"

record result_metadata =
  entries :: "(string \<times> string) list"
  pdf_metadata :: "pdf_meta option"

record classification_result =
  predictedClass :: class_definition
  confidence :: real
  similarityScore :: real
  rerankScore :: "real option"
  attributeScore :: "real option"
  alternatives :: "classification_alternative list"
  attributeValidation :: "attribute_validation_result option"
  processingTime :: "real option"
  metadata :: result_metadata

text \<open>\<open>ApiResponse<ClassificationResult>\<close> without its \<open>timestamp\<close> and its \<open>message\<close>,
  which the service never sets.\<close>

record api_response =
  success :: bool
  data :: "classification_result option"
  response_error :: "app_error option"

section \<open>The backend's JSON, as the classification service reads it\<close>

record backend_class =
  name :: string
  description :: "string option"

record backend_alternative =
  alt_name :: string
  alt_description :: "string option"
  alt_effective_score :: "real option"
  alt_similarity_score :: "real option"
  alt_rerank_score :: "real option"
  alt_attribute_score :: "real option"

record backend_attribute_validation =
  conditions_met :: "string list option"
  conditions_not_met :: "string list option"
  overall_score :: "real option"
  evaluation_details :: "evaluation_details option"

record backend_result =
  predicted_class :: "backend_class option"
  effective_score :: "real option"
  similarity_score :: "real option"
  rerank_score :: "real option"
  attribute_score :: "real option"
  attribute_validation :: "backend_attribute_validation option"
  b_alternatives :: "backend_alternative list option"
  processing_time :: "real option"
  b_metadata :: "result_metadata option"
  b_pdf_metadata :: "pdf_meta option"

text \<open>What \<open>apiClient.post\<close> and \<open>apiClient.uploadFile\<close> resolve to. Both always resolve
  (\<open>ApiClient.request\<close> and \<open>uploadFile\<close> turn every failure into a response with
  \<open>success: false\<close> and an \<open>error\<close>).\<close>

record backend_response =
  b_success :: bool
  b_data :: "backend_result option"
  b_error :: "app_error option"

record backend_config =
  use_reranking :: bool
  reranking_model :: string
  use_attribute_validation :: bool
  top_k_candidates :: int

text \<open>The two requests the service sends: \<open>POST /classify/text\<close> with a JSON body, and
  the upload of a file to \<open>/classify/pdf\<close> with form fields (\<open>config_json\<close> is kept as the
  object that is stringified).\<close>

datatype api_call =
    PostClassifyText "string option" "string option" backend_config
  | UploadClassifyPDF "js_file option" "string option" backend_config

text \<open>The collaborators of the service: the HTTP client and \<open>JSON.stringify\<close>.\<close>

record env =
  client :: "api_call \<Rightarrow> backend_response"
  stringify :: "validation_error \<Rightarrow> string"

section \<open>ClassificationService (services/classification-service.ts)\<close>

definition validateTextRequest :: "classify_text_request \<Rightarrow> validation_error + unit" where
  "validateTextRequest request =
     (if not_trimmed (request_text request)
      then Inl (createValidationError ''Text content is required'' (Some ''text''))
      else if not_trimmed (datasetId request)
      then Inl (createValidationError ''Dataset ID is required'' (Some ''datasetId''))
      else (case config request of
        None \<Rightarrow> Inl (createValidationError ''Configuration is required'' (Some ''config''))
      | Some c \<Rightarrow>
          (if topKCandidates c < 1 \<or> topKCandidates c > 100
           then Inl (createValidationError ''Top K candidates must be between 1 and 100''
                       (Some ''config.topKCandidates''))
           else Inr ())))"

definition maxSize :: nat where
  "maxSize = 50 * 1024 * 1024"

definition validatePDFFile :: "js_file option \<Rightarrow> validation_error + unit" where
  "validatePDFFile f =
     (case f of
        None \<Rightarrow> Inl (createValidationError ''PDF file is required'' (Some ''file''))
      | Some fl \<Rightarrow>
          (if \<not> endsWith (toLowerCase (file_name fl)) ''.pdf''
           then Inl (createValidationError ''Only PDF files are supported'' (Some ''file''))
           else if file_size fl > maxSize
           then Inl (createValidationError ''PDF file size must be less than 50MB'' (Some ''file''))
           else if file_size fl = 0
           then Inl (createValidationError ''PDF file cannot be empty'' (Some ''file''))
           else Inr ()))"

definition validatePDFRequest :: "classify_pdf_request \<Rightarrow> validation_error + unit" where
  "validatePDFRequest request =
     (case validatePDFFile (request_file request) of
        Inl e \<Rightarrow> Inl e
      | Inr _ \<Rightarrow>
          (if not_trimmed (datasetId request)
          then Inl (createValidationError ''Dataset ID is required'' (Some ''datasetId''))
          else (case config request of
            None \<Rightarrow> Inl (createValidationError ''Configuration is required'' (Some ''config''))
          | Some c \<Rightarrow> Inr ())))"

text \<open>The \<open>config\<close> object both requests send.\<close>

definition to_backend_config :: "classification_config \<Rightarrow> backend_config" where
  "to_backend_config c =
     \<lparr>use_reranking = useReranking c,
      reranking_model = or_string (rerankingModel c) ''us.amazon.nova-lite-v1:0'',
      use_attribute_validation = useAttributeValidation c,
      top_k_candidates = topKCandidates c\<rparr>"

definition transformAlternative :: "backend_alternative \<Rightarrow> classification_alternative" where
  "transformAlternative alt =
     \<lparr>alt_class =
        \<lparr>class_id = replace_whitespace_runs (toLowerCase (alt_name alt)),
         class_name = alt_name alt,
         class_description = Some (or_string (alt_description alt) ''Alternative classification'')\<rparr>,
      alt_confidence = or_number (alt_effective_score alt) (or_number (alt_similarity_score alt) 0),
      scores =
        \<lparr>similarity = or_number (alt_similarity_score alt) 0,
         rerank = alt_rerank_score alt,
         attribute = alt_attribute_score alt\<rparr>\<rparr>"

definition transformAttributeValidation ::
  "backend_attribute_validation \<Rightarrow> attribute_validation_result" where
  "transformAttributeValidation av =
     \<lparr>conditionsMet = (case conditions_met av of None \<Rightarrow> [] | Some xs \<Rightarrow> xs),
      conditionsNotMet = (case conditions_not_met av of None \<Rightarrow> [] | Some xs \<Rightarrow> xs),
      overallScore = or_number (overall_score av) 0,
      validation_details =
        (case evaluation_details av of
           None \<Rightarrow> \<lparr>evaluation_tree = None, other_details = []\<rparr>
         | Some d \<Rightarrow> d),
      evaluationTree =
        (case evaluation_details av of None \<Rightarrow> None | Some d \<Rightarrow> evaluation_tree d)\<rparr>"

text \<open>\<open>metadata: backendResult.metadata || {}\<close> (text) and
  \<open>metadata: {...backendResult.metadata, pdf_metadata: backendResult.pdf_metadata}\<close> (PDF).\<close>

definition text_metadata :: "backend_result \<Rightarrow> result_metadata" where
  "text_metadata backendResult =
     (case b_metadata backendResult of
        None \<Rightarrow> \<lparr>entries = [], pdf_metadata = None\<rparr>
      | Some m \<Rightarrow> m)"

definition pdf_result_metadata :: "backend_result \<Rightarrow> result_metadata" where
  "pdf_result_metadata backendResult =
     \<lparr>entries = (case b_metadata backendResult of None \<Rightarrow> [] | Some m \<Rightarrow> entries m),
      pdf_metadata = b_pdf_metadata backendResult\<rparr>"

text \<open>The object literal \<open>classificationResult\<close>, which \<open>classifyText\<close> and \<open>classifyPDF\<close>
  build field by field in the same way but for \<open>metadata\<close>. Reading \<open>predicted_class\<close> of
  a missing result, or \<open>name\<close> of a missing class, raises a \<open>TypeError\<close>.\<close>

definition transformResult ::
  "(backend_result \<Rightarrow> result_metadata) \<Rightarrow> backend_result option
   \<Rightarrow> thrown + classification_result" where
  "transformResult metadata_of response_data =
     (case response_data of
        None \<Rightarrow> Inl (type_error ''predicted_class'')
      | Some backendResult \<Rightarrow>
          (case predicted_class backendResult of
             None \<Rightarrow> Inl (type_error ''name'')
           | Some pc \<Rightarrow>
               Inr \<lparr>predictedClass =
                      \<lparr>class_id = replace_whitespace_runs (toLowerCase (name pc)),
                       class_name = name pc,
                       class_description = description pc\<rparr>,
                    confidence =
                      or_number (effective_score backendResult)
                        (or_number (similarity_score backendResult) 0),
                    similarityScore = or_number (similarity_score backendResult) 0,
                    rerankScore = rerank_score backendResult,
                    attributeScore = attribute_score backendResult,
                    alternatives =
                      map transformAlternative
                        (case b_alternatives backendResult of None \<Rightarrow> [] | Some alts \<Rightarrow> alts),
                    attributeValidation =
                      map_option transformAttributeValidation (attribute_validation backendResult),
                    processingTime = processing_time backendResult,
                    metadata = metadata_of backendResult\<rparr>))"

text \<open>The response built in a \<open>catch\<close> block (\<open>logError\<close> only writes to the console).\<close>

definition failed_response :: "env \<Rightarrow> string \<Rightarrow> string \<Rightarrow> thrown \<Rightarrow> api_response" where
  "failed_response e msg suggestion error =
     (let appError = fromUnknown (stringify e) error
      in \<lparr>success = False, data = None,
          response_error =
            Some \<lparr>etype = processing, message = msg, details = Some (message appError),
                  code = None, recoverable = True, suggestedAction = Some suggestion\<rparr>\<rparr>)"

text \<open>The part of \<open>classifyText\<close> and \<open>classifyPDF\<close> after the request was sent:
  a response with \<open>success: false\<close> is returned as it is (it carries no \<open>data\<close>), any other
  is transformed. The result comes with the list of requests sent.\<close>

definition after_call ::
  "env \<Rightarrow> (backend_result \<Rightarrow> result_metadata) \<Rightarrow> string \<Rightarrow> string \<Rightarrow> api_call
   \<Rightarrow> api_response \<times> api_call list" where
  "after_call e metadata_of msg suggestion call =
     (let response = client e call
      in if \<not> b_success response
         then (\<lparr>success = False, data = None, response_error = b_error response\<rparr>, [call])
         else (case transformResult metadata_of (b_data response) of
                 Inl error \<Rightarrow> (failed_response e msg suggestion error, [call])
               | Inr classificationResult \<Rightarrow>
                   (\<lparr>success = True, data = Some classificationResult, response_error = None\<rparr>,
                    [call])))"

definition classifyText :: "env \<Rightarrow> classify_text_request \<Rightarrow> api_response \<times> api_call list" where
  "classifyText e request =
     (let msg = ''Classification failed'';
          suggestion = ''Please check your input and try again.''
      in case validateTextRequest request of
           Inl error \<Rightarrow> (failed_response e msg suggestion (ThrownObject error), [])
         | Inr _ \<Rightarrow>
             (case config request of
                None \<Rightarrow> (failed_response e msg suggestion (type_error ''useReranking''), [])
              | Some c \<Rightarrow>
                  after_call e text_metadata msg suggestion
                    (PostClassifyText (request_text request) (datasetId request) (to_backend_config c))))"

definition classifyPDF :: "env \<Rightarrow> classify_pdf_request \<Rightarrow> api_response \<times> api_call list" where
  "classifyPDF e request =
     (let msg = ''PDF classification failed'';
          suggestion = ''Please check your PDF file and try again.''
      in case validatePDFRequest request of
           Inl error \<Rightarrow> (failed_response e msg suggestion (ThrownObject error), [])
         | Inr _ \<Rightarrow>
             (case config request of
                None \<Rightarrow> (failed_response e msg suggestion (type_error ''useReranking''), [])
              | Some c \<Rightarrow>
                  after_call e pdf_result_metadata msg suggestion
                    (UploadClassifyPDF (request_file request) (datasetId request) (to_backend_config c))))"

section \<open>Classification store (stores/classification-store.ts)\<close>

record pdf_extraction_result =
  extractedText :: string
  pageCount :: nat
  extractionMethod :: string
  extraction_confidence :: real

record classification_state =
  currentResult :: "classification_result option"
  resultHistory :: "classification_result list"
  store_config :: classification_config
  isClassifying :: bool
  store_error :: "app_error option"
  pdfExtractionResult :: "pdf_extraction_result option"

definition defaultConfig :: classification_config where
  "defaultConfig =
     \<lparr>useReranking = False, rerankingModel = Some ''us.amazon.nova-lite-v1:0'',
      useAttributeValidation = False, topKCandidates = 5\<rparr>"

definition initial_state :: classification_state where
  "initial_state =
     \<lparr>currentResult = None, resultHistory = [], store_config = defaultConfig,
      isClassifying = False, store_error = None, pdfExtractionResult = None\<rparr>"

definition setCurrentResult ::
  "classification_result option \<Rightarrow> classification_state \<Rightarrow> classification_state" where
  "setCurrentResult result state = state\<lparr>currentResult := result\<rparr>"

definition addToHistory ::
  "classification_result \<Rightarrow> classification_state \<Rightarrow> classification_state" where
  "addToHistory result state = state\<lparr>resultHistory := take 50 (result # resultHistory state)\<rparr>"

definition clearHistory :: "classification_state \<Rightarrow> classification_state" where
  "clearHistory state = state\<lparr>resultHistory := []\<rparr>"

text \<open>\<open>new Error(response.error?.message || fallback)\<close>, then the \<open>catch\<close> block's
  \<open>appError\<close> with \<open>details: error.message\<close>.\<close>

definition store_failure :: "string \<Rightarrow> string \<Rightarrow> string \<Rightarrow> api_response \<Rightarrow> app_error" where
  "store_failure fallback error_code msg response =
     \<lparr>etype = processing, message = msg,
      details = Some (or_string (map_option message (response_error response)) fallback),
      code = Some error_code, recoverable = True, suggestedAction = None\<rparr>"

text \<open>The store's \<open>classifyText\<close>: the value returned or thrown (\<open>Inl\<close>), and the state
  after the call. The outer \<open>None\<close> stands for a response with \<open>success: true\<close> and no
  \<open>data\<close>, which the service never builds (lemma \<open>classifyText_success_data\<close>).\<close>

definition store_classifyText ::
  "env \<Rightarrow> classify_text_request \<Rightarrow> classification_state
   \<Rightarrow> ((app_error + classification_result) \<times> classification_state) option" where
  "store_classifyText e request state0 =
     (let state1 = state0\<lparr>isClassifying := True, store_error := None\<rparr>;
          response = fst (classifyText e request)
      in if \<not> success response
         then (let appError =
                     store_failure ''Classification failed'' ''CLASSIFICATION_FAILED''
                       ''Failed to classify text'' response
               in Some (Inl appError, state1\<lparr>store_error := Some appError, isClassifying := False\<rparr>))
         else (case data response of
                 None \<Rightarrow> None
               | Some result \<Rightarrow>
                   Some (Inr result,
                         addToHistory result
                           (state1\<lparr>currentResult := Some result, isClassifying := False\<rparr>))))"

text \<open>The store's \<open>classifyPDF\<close>, which also keeps the PDF metadata of the result.\<close>

definition store_classifyPDF ::
  "env \<Rightarrow> classify_pdf_request \<Rightarrow> classification_state
   \<Rightarrow> ((app_error + classification_result) \<times> classification_state) option" where
  "store_classifyPDF e request state0 =
     (let state1 = state0\<lparr>isClassifying := True, store_error := None\<rparr>;
          response = fst (classifyPDF e request)
      in if \<not> success response
         then (let appError =
                     store_failure ''PDF classification failed'' ''PDF_CLASSIFICATION_FAILED''
                       ''Failed to classify PDF'' response
               in Some (Inl appError, state1\<lparr>store_error := Some appError, isClassifying := False\<rparr>))
         else (case data response of
                 None \<Rightarrow> None
               | Some result \<Rightarrow>
                   (let state2 =
                          (case pdf_metadata (metadata result) of
                             None \<Rightarrow> state1
                           | Some pdfMeta \<Rightarrow>
                               state1\<lparr>pdfExtractionResult :=
                                 Some \<lparr>extractedText =
                                         or_string (extracted_text_preview pdfMeta)
                                           ''Text extracted from PDF'',
                                       pageCount =
                                         (case page_count pdfMeta of
                                            None \<Rightarrow> 1
                                          | Some n \<Rightarrow> if n = 0 then 1 else n),
                                       extractionMethod = ''Multimodal LLM'',
                                       extraction_confidence = 0.95\<rparr>\<rparr>)
                    in Some (Inr result,
                             addToHistory result
                               (state2\<lparr>currentResult := Some result, isClassifying := False\<rparr>)))))"

section \<open>ClassificationOptions component\<close>

text \<open>The handlers of the component. Each is given the \<open>config\<close> property and answers
  with the configuration it hands to \<open>onConfigChange\<close>, or with \<open>None\<close> when it does not
  call \<open>onConfigChange\<close>. \<open>availableModels[0]\<close> is undefined for an empty list.\<close>

definition handleToggleReranking ::
  "string list \<Rightarrow> classification_config \<Rightarrow> classification_config" where
  "handleToggleReranking availableModels cfg =
     cfg\<lparr>useReranking := \<not> useReranking cfg,
         rerankingModel :=
           (if \<not> useReranking cfg
            then (case availableModels of [] \<Rightarrow> None | m # _ \<Rightarrow> Some m)
            else rerankingModel cfg)\<rparr>"

definition handleToggleAttributeValidation ::
  "bool \<Rightarrow> classification_config \<Rightarrow> classification_config option" where
  "handleToggleAttributeValidation attributesExist cfg =
     (if \<not> useAttributeValidation cfg \<and> \<not> attributesExist then None
      else Some (cfg\<lparr>useAttributeValidation := \<not> useAttributeValidation cfg\<rparr>))"

definition handleRerankingModelChange ::
  "classification_config \<Rightarrow> string \<Rightarrow> classification_config" where
  "handleRerankingModelChange cfg modelId = cfg\<lparr>rerankingModel := Some modelId\<rparr>"

definition handleTopKChange :: "classification_config \<Rightarrow> int \<Rightarrow> classification_config" where
  "handleTopKChange cfg v = cfg\<lparr>topKCandidates := max 1 (min 20 v)\<rparr>"

text \<open>The effect \<open>checkAttributes\<close>: no dataset is selected, or \<open>attributesExist\<close> answered,
  or it failed.\<close>

datatype attributes_check = NoDatasetSelected | AttributesExist bool | CheckFailed

definition checkAttributes ::
  "classification_config \<Rightarrow> attributes_check \<Rightarrow> classification_config option" where
  "checkAttributes cfg outcome =
     (case outcome of
        NoDatasetSelected \<Rightarrow>
          (if useAttributeValidation cfg then Some (cfg\<lparr>useAttributeValidation := False\<rparr>)
           else None)
      | AttributesExist exist \<Rightarrow>
          (if useAttributeValidation cfg \<and> \<not> exist
           then Some (cfg\<lparr>useAttributeValidation := False\<rparr>) else None)
      | CheckFailed \<Rightarrow>
          (if useAttributeValidation cfg then Some (cfg\<lparr>useAttributeValidation := False\<rparr>)
           else None))"

text \<open>Everything that makes the component call \<open>onConfigChange\<close>, and the configuration
  it then hands over.\<close>

datatype options_event =
    ToggleReranking
  | ToggleAttributeValidation
  | RerankingModelChange string
  | TopKChange int
  | AttributesChecked attributes_check

definition onConfigChange ::
  "string list \<Rightarrow> bool \<Rightarrow> classification_config \<Rightarrow> options_event
   \<Rightarrow> classification_config option" where
  "onConfigChange availableModels attributesExist cfg ev =
     (case ev of
        ToggleReranking \<Rightarrow> Some (handleToggleReranking availableModels cfg)
      | ToggleAttributeValidation \<Rightarrow> handleToggleAttributeValidation attributesExist cfg
      | RerankingModelChange modelId \<Rightarrow> Some (handleRerankingModelChange cfg modelId)
      | TopKChange v \<Rightarrow> Some (handleTopKChange cfg v)
      | AttributesChecked outcome \<Rightarrow> checkAttributes cfg outcome)"

section \<open>Rule validation (services/dataset-service.ts, the attribute editor)\<close>

text \<open>Rules as the validators meet them at run time: a property may be missing
  (\<open>None\<close>), an entry of \<open>conditions\<close> is a string, a condition object, a nested rule (an
  object with an \<open>operator\<close> key) or anything else.\<close>

datatype attribute_condition =
  AttributeCondition
    (cond_id: "string option")
    (cond_description: "string option")
    (cond_type: "string option")

datatype attribute_rule =
  AttributeRule (operator: "string option") (conditions: "rule_entry list option")
and rule_entry =
    StringEntry string
  | ConditionEntry attribute_condition
  | RuleEntry attribute_rule
  | OtherEntry

record validation_result =
  isValid :: bool
  errors :: "string list"

fun string_of_nat :: "nat \<Rightarrow> string" where
  "string_of_nat n =
     (if n < 10 then [char_of (48 + n)]
      else string_of_nat (n div 10) @ [char_of (48 + n mod 10)])"

fun join :: "string \<Rightarrow> string list \<Rightarrow> string" where
  "join sep [] = []"
| "join sep [x] = x"
| "join sep (x # y # ys) = x @ sep @ join sep (y # ys)"

definition validateAttributeCondition :: "attribute_condition \<Rightarrow> validation_result" where
  "validateAttributeCondition c =
     (let errs =
            (if not_trimmed (cond_id c) then [''Condition ID is required''] else [])
          @ (if not_trimmed (cond_description c)
             then [''Condition description is required''] else [])
          @ (if cond_type c \<notin> set (map Some [''text_match'', ''numeric_range'', ''boolean'', ''custom''])
             then [''Condition type must be one of: text_match, numeric_range, boolean, custom'']
             else [])
          @ (case cond_description c of
               None \<Rightarrow> []
             | Some d \<Rightarrow>
                 if length d > 200
                 then [''Condition description must be less than 200 characters''] else [])
      in \<lparr>isValid = (errs = []), errors = errs\<rparr>)"

text \<open>The branch of \<open>DatasetService.validateAttributeRule\<close> for a condition object at
  index \<open>i\<close>.\<close>

definition service_condition_errors :: "nat \<Rightarrow> attribute_condition \<Rightarrow> string list" where
  "service_condition_errors i c =
     (let conditionValidation = validateAttributeCondition c
      in if \<not> isValid conditionValidation
         then [''Condition '' @ string_of_nat (i + 1) @ '': ''
               @ join '', '' (errors conditionValidation)]
         else [])"

text \<open>The same branch of the attribute editor's \<open>validateRule\<close>.\<close>

definition editor_condition_errors :: "nat \<Rightarrow> attribute_condition \<Rightarrow> string list" where
  "editor_condition_errors i c =
     (if not_trimmed (cond_id c)
      then [''Condition '' @ string_of_nat (i + 1) @ '': ID is required''] else [])
     @ (if not_trimmed (cond_description c)
        then [''Condition '' @ string_of_nat (i + 1) @ '': Description is required''] else [])"

text \<open>The errors both validators collect, in the order they are pushed. The two differ
  only in the branch for condition objects, \<open>on_condition\<close>. \<open>rule_errors\<close> is the body of
  the validator, \<open>entries_errors i\<close> the \<open>forEach\<close> from index \<open>i\<close> on.\<close>

fun rule_errors :: "(nat \<Rightarrow> attribute_condition \<Rightarrow> string list) \<Rightarrow> attribute_rule \<Rightarrow> string list"
and entries_errors ::
  "(nat \<Rightarrow> attribute_condition \<Rightarrow> string list) \<Rightarrow> nat \<Rightarrow> rule_entry list \<Rightarrow> string list"
where
  "rule_errors on_condition (AttributeRule op cs) =
       (if op \<noteq> Some ''AND'' \<and> op \<noteq> Some ''OR''
        then [''Rule operator must be either '' @ [CHR 0x22] @ ''AND'' @ [CHR 0x22] @ '' or ''
              @ [CHR 0x22] @ ''OR'' @ [CHR 0x22]]
        else [])
     @ (if cs = None \<or> cs = Some []
        then [''Rule must have at least one condition''] else [])
     @ (case cs of None \<Rightarrow> [] | Some es \<Rightarrow> entries_errors on_condition 0 es)"
| "entries_errors on_condition i [] = []"
| "entries_errors on_condition i (StringEntry str # es) =
       (if trim str = []
        then [''Condition '' @ string_of_nat (i + 1) @ '': Cannot be empty''] else [])
     @ entries_errors on_condition (i + 1) es"
| "entries_errors on_condition i (RuleEntry r # es) =
       (let nested = rule_errors on_condition r
        in if nested \<noteq> []
           then [''Nested rule '' @ string_of_nat (i + 1) @ '': '' @ join '', '' nested]
           else [])
     @ entries_errors on_condition (i + 1) es"
| "entries_errors on_condition i (ConditionEntry c # es) =
     on_condition i c @ entries_errors on_condition (i + 1) es"
| "entries_errors on_condition i (OtherEntry # es) = entries_errors on_condition (i + 1) es"

definition validateAttributeRule :: "attribute_rule \<Rightarrow> validation_result" where
  "validateAttributeRule rule =
     (let errs = rule_errors service_condition_errors rule
      in \<lparr>isValid = (errs = []), errors = errs\<rparr>)"

definition validateRule :: "attribute_rule \<Rightarrow> validation_result" where
  "validateRule rule =
     (let errs = rule_errors editor_condition_errors rule
      in \<lparr>isValid = (errs = []), errors = errs\<rparr>)"

text \<open>A rule has an empty node when the rule itself or a rule nested in it, at any
  depth, has an empty list of conditions.\<close>

fun has_empty_node :: "attribute_rule \<Rightarrow> bool"
and some_entry_empty :: "rule_entry list \<Rightarrow> bool" where
  "has_empty_node (AttributeRule op cs) =
     (case cs of None \<Rightarrow> False | Some es \<Rightarrow> es = [] \<or> some_entry_empty es)"
| "some_entry_empty [] = False"
| "some_entry_empty (RuleEntry r # es) = (has_empty_node r \<or> some_entry_empty es)"
| "some_entry_empty (StringEntry str # es) = some_entry_empty es"
| "some_entry_empty (ConditionEntry c # es) = some_entry_empty es"
| "some_entry_empty (OtherEntry # es) = some_entry_empty es"

section \<open>The rule-tree evaluator\<close>

text \<open>Modelled from the spec: the rule-tree evaluator runs in the backend, whose code is
  not among the sources; only its result type \<open>EvaluationTreeNode\<close> and the component that
  renders it are. A rule tree is a leaf (a condition's description) or an AND/OR node over
  an ordered list of children.\<close>

datatype bool_operator = OpAND | OpOR

datatype rule_tree = Leaf string | Rule bool_operator "rule_tree list"

text \<open>Modelled from the spec: the answer of \<open>ConditionOracle.judge(description, document)\<close>,
  a judgment with an optional confidence, or a failure with its message.\<close>

datatype oracle_answer = JudgmentResult bool "real option" | JudgmentError string

type_synonym condition_judge = "string \<Rightarrow> string \<Rightarrow> oracle_answer"

text \<open>Modelled from the spec: the node type of an operator.\<close>

fun operator_type :: "bool_operator \<Rightarrow> node_type" where
  "operator_type OpAND = T_AND"
| "operator_type OpOR = T_OR"

text \<open>Modelled from the spec: a child that short-circuiting prunes still appears in the
  tree, in its place and with its shape, marked \<open>skipped = true\<close>, \<open>satisfied = null\<close>.\<close>

fun mark_skipped :: "rule_tree \<Rightarrow> evaluation_tree_node" where
  "mark_skipped (Leaf d) = EvaluationTreeNode T_condition None (Some d) None (Some True) None"
| "mark_skipped (Rule op cs) =
     EvaluationTreeNode (operator_type op) None None (Some (map mark_skipped cs)) (Some True) None"

text \<open>Modelled from the spec: the child result on which a node stops evaluating its
  remaining children (\<open>false\<close> for AND, \<open>true\<close> for OR).\<close>

fun stops_on :: "bool_operator \<Rightarrow> bool" where
  "stops_on OpAND = False"
| "stops_on OpOR = True"

text \<open>Modelled from the spec: an AND node is satisfied when every child is; an OR node
  when some child is. A child that failed or was skipped has \<open>satisfied = null\<close> and counts
  as not satisfied.\<close>

fun node_satisfied :: "bool_operator \<Rightarrow> evaluation_tree_node list \<Rightarrow> bool" where
  "node_satisfied OpAND ts = list_all (\<lambda>t. satisfied t = Some True) ts"
| "node_satisfied OpOR ts = list_ex (\<lambda>t. satisfied t = Some True) ts"

text \<open>Modelled from the spec: the explanatory error of a rule without conditions (the
  spec fixes no wording; the validators' message is used).\<close>

definition empty_rule_error :: string where
  "empty_rule_error = ''Rule must have at least one condition''"

text \<open>Modelled from the spec: \<open>evaluate(rule, document)\<close> (section 4.1). The result is the
  evaluation tree together with the descriptions sent to the oracle, in the order of the
  calls. \<open>evaluate_children\<close> walks the children of a node in declared order.\<close>

fun evaluate :: "condition_judge \<Rightarrow> string \<Rightarrow> rule_tree \<Rightarrow> evaluation_tree_node \<times> string list"
and evaluate_children ::
  "condition_judge \<Rightarrow> string \<Rightarrow> bool_operator \<Rightarrow> rule_tree list
   \<Rightarrow> evaluation_tree_node list \<times> string list"
where
  "evaluate judge doc (Leaf d) =
     (case judge d doc of
        JudgmentResult b conf \<Rightarrow>
          (EvaluationTreeNode T_condition (Some b) (Some d) None (Some False) None, [d])
      | JudgmentError m \<Rightarrow>
          (EvaluationTreeNode T_condition None (Some d) None (Some False) (Some m), [d]))"
| "evaluate judge doc (Rule op cs) =
     (if cs = []
      then (EvaluationTreeNode (operator_type op) (Some False) None (Some []) (Some False)
              (Some empty_rule_error), [])
      else (case evaluate_children judge doc op cs of
              (ts, calls) \<Rightarrow>
                (EvaluationTreeNode (operator_type op) (Some (node_satisfied op ts)) None
                   (Some ts) (Some False) None, calls)))"
| "evaluate_children judge doc op [] = ([], [])"
| "evaluate_children judge doc op (c # cs) =
     (case evaluate judge doc c of
        (t, calls) \<Rightarrow>
          if satisfied t = Some (stops_on op)
          then (t # map mark_skipped cs, calls)
          else (case evaluate_children judge doc op cs of
                  (ts, calls') \<Rightarrow> (t # ts, calls @ calls')))"

section \<open>The score aggregator and the pipeline\<close>

text \<open>Modelled from the spec: \<open>ClassificationCandidate\<close> (section 3); the score
  aggregator runs in the backend, whose code is not among the sources.\<close>

record candidate =
  c_class :: class_definition
  c_similarity :: real
  c_rerank :: "real option"
  c_attribute :: "real option"
  c_effective :: real

text \<open>Modelled from the spec: all scores are clamped to \<open>[0, 1]\<close>.\<close>

definition clamp01 :: "real \<Rightarrow> real" where
  "clamp01 x = max 0 (min 1 x)"

text \<open>Modelled from the spec: the effective score (section 4.2): the rerank score when
  reranking was requested and the reranker scored the candidate, else the similarity.\<close>

definition effective_score_of :: "bool \<Rightarrow> real \<Rightarrow> real option \<Rightarrow> real" where
  "effective_score_of requested sim rr =
     (if requested then (case rr of Some r \<Rightarrow> r | None \<Rightarrow> sim) else sim)"

text \<open>Modelled from the spec: one candidate of the similarity stage, scored. \<open>reranked\<close>
  is the reranker's output, which need not cover every candidate.\<close>

definition score_candidate ::
  "bool \<Rightarrow> (class_definition \<times> real) list \<Rightarrow> class_definition \<times> real \<Rightarrow> candidate" where
  "score_candidate requested reranked cs =
     (let sim = clamp01 (snd cs);
          rr = (if requested then map_option clamp01 (map_of reranked (fst cs)) else None)
      in \<lparr>c_class = fst cs, c_similarity = sim, c_rerank = rr, c_attribute = None,
          c_effective = effective_score_of requested sim rr\<rparr>)"

text \<open>Modelled from the spec: the ranking, descending by effective score, ties kept in
  the order of the similarity stage (\<open>sort_key\<close> is a stable insertion sort).\<close>

definition aggregate ::
  "bool \<Rightarrow> (class_definition \<times> real) list \<Rightarrow> (class_definition \<times> real) list \<Rightarrow> candidate list"
  where
  "aggregate requested reranked ranked =
     sort_key (\<lambda>c. - c_effective c) (map (score_candidate requested reranked) ranked)"

text \<open>Modelled from the spec: the three oracles of the pipeline (section 6). The reranker
  answers \<open>None\<close> when it fails.\<close>

record collaborators =
  rank :: "string \<Rightarrow> class_definition list \<Rightarrow> nat \<Rightarrow> (class_definition \<times> real) list"
  reranker ::
    "string \<Rightarrow> (class_definition \<times> real) list \<Rightarrow> string
     \<Rightarrow> (class_definition \<times> real) list option"
  judge_condition :: condition_judge

text \<open>Modelled from the spec: the failures of \<open>Pipeline.classify\<close> (section 7).\<close>

datatype classification_failure = InputError string | RetrievalError

text \<open>Modelled from the spec: \<open>ClassificationResult\<close> of the pipeline (section 3), without
  the processing time.\<close>

record pipeline_result =
  predicted :: class_definition
  primaryCandidate :: candidate
  ranked_alternatives :: "candidate list"
  result_tree :: "evaluation_tree_node option"

text \<open>Modelled from the spec: the attribute score, 1 when the root of the evaluation tree
  is satisfied and 0 otherwise.\<close>

definition attribute_score_of :: "evaluation_tree_node \<Rightarrow> real" where
  "attribute_score_of t = (if satisfied t = Some True then 1 else 0)"

text \<open>Modelled from the spec: \<open>Pipeline.classify(document, classSet, config)\<close> (sections
  4.2, 4.3 and 7). A class comes with its required attributes, if it has any. Attribute
  validation runs for the best candidate only, after the ranking.\<close>

definition classify ::
  "collaborators \<Rightarrow> string \<Rightarrow> (class_definition \<times> rule_tree option) list \<Rightarrow> classification_config
   \<Rightarrow> classification_failure + pipeline_result" where
  "classify os document classSet cfg =
     (if document = [] then Inl (InputError ''empty document'')
      else if classSet = [] then Inl (InputError ''empty class set'')
      else if topKCandidates cfg < 1 \<or> topKCandidates cfg > 100
      then Inl (InputError ''topKCandidates outside [1,100]'')
      else
        (let topK = nat (topKCandidates cfg);
             ranked = take topK (rank os document (map fst classSet) topK);
             reranked =
               (if useReranking cfg
                then (case reranker os document ranked
                             (or_string (rerankingModel cfg) []) of
                        None \<Rightarrow> []
                      | Some l \<Rightarrow> l)
                else [])
         in case aggregate (useReranking cfg) reranked ranked of
              [] \<Rightarrow> Inl RetrievalError
            | best # others \<Rightarrow>
                (let tree =
                       (if useAttributeValidation cfg
                        then (case map_of classSet (c_class best) of
                                Some (Some rule) \<Rightarrow>
                                  Some (fst (evaluate (judge_condition os) document rule))
                              | _ \<Rightarrow> None)
                        else None)
                 in Inr \<lparr>predicted = c_class best,
                         primaryCandidate = best\<lparr>c_attribute := map_option attribute_score_of tree\<rparr>,
                         ranked_alternatives = others,
                         result_tree = tree\<rparr>)))"

section \<open>Example inputs\<close>

definition example_backend_result :: "string \<Rightarrow> real \<Rightarrow> real \<Rightarrow> backend_result" where
  "example_backend_result class_label eff sim =
     \<lparr>predicted_class = Some \<lparr>name = class_label, description = None\<rparr>,
      effective_score = Some eff, similarity_score = Some sim, rerank_score = None,
      attribute_score = None, attribute_validation = None, b_alternatives = None,
      processing_time = None, b_metadata = None, b_pdf_metadata = None\<rparr>"

text \<open>A backend that answers every request with the same result.\<close>

definition answering :: "backend_result \<Rightarrow> env" where
  "answering r =
     \<lparr>client = (\<lambda>call. \<lparr>b_success = True, b_data = Some r, b_error = None\<rparr>),
      stringify = (\<lambda>v. ''{}'')\<rparr>"

text \<open>A backend that predicts the class named by the text it is sent.\<close>

definition echoing :: env where
  "echoing =
     \<lparr>client =
        (\<lambda>call. case call of
           PostClassifyText t d c \<Rightarrow>
             \<lparr>b_success = True,
              b_data = Some (example_backend_result (case t of None \<Rightarrow> [] | Some s \<Rightarrow> s) 0.9 0.9),
              b_error = None\<rparr>
         | UploadClassifyPDF f d c \<Rightarrow> \<lparr>b_success = False, b_data = None, b_error = None\<rparr>),
      stringify = (\<lambda>v. ''{}'')\<rparr>"

definition example_text_request :: "string \<Rightarrow> int \<Rightarrow> classify_text_request" where
  "example_text_request t k =
     \<lparr>datasetId = Some ''demo'', config = Some (defaultConfig\<lparr>topKCandidates := k\<rparr>),
      request_text = Some t\<rparr>"

definition example_pdf_request :: "int \<Rightarrow> classify_pdf_request" where
  "example_pdf_request k =
     \<lparr>datasetId = Some ''demo'', config = Some (defaultConfig\<lparr>topKCandidates := k\<rparr>),
      request_file = Some \<lparr>file_name = ''note.pdf'', file_size = 2048\<rparr>\<rparr>"

definition invoice :: class_definition where
  "invoice = \<lparr>class_id = ''invoice'', class_name = ''Invoice'', class_description = None\<rparr>"

definition resume :: class_definition where
  "resume = \<lparr>class_id = ''resume'', class_name = ''Resume'', class_description = None\<rparr>"

text \<open>The similarity stage, the reranker and the condition judge of the spec's end-to-end
  scenarios: Invoice 0.81 and Resume 0.35, the reranker scoring Resume only, every
  condition judged true.\<close>

definition scenario :: collaborators where
  "scenario =
     \<lparr>rank = (\<lambda>doc classes k. [(invoice, 0.81), (resume, 0.35)]),
      reranker = (\<lambda>doc cands model. Some [(resume, 0.9)]),
      judge_condition = (\<lambda>d doc. JudgmentResult True None)\<rparr>"

definition scenario_classes :: "(class_definition \<times> rule_tree option) list" where
  "scenario_classes =
     [(invoice, Some (Rule OpAND [Leaf ''mentions a monetary amount'',
                                  Leaf ''identifies payer and payee''])),
      (resume, Some (Rule OpOR [Leaf ''lists work experience'', Leaf ''lists education'']))]"

section \<open>Facts about the string helpers\<close>

lemmas js_eval =
  is_js_whitespace_def trim_def not_trimmed_def lower_char_def toLowerCase_def endsWith_def
  replace_whitespace_runs_def or_string_def or_number_def char_of_def bit_Suc_0_iff

lemma trim_empty_iff: "trim s = [] \<longleftrightarrow> (\<forall>c\<in>set s. is_js_whitespace c)"
proof
  assume "trim s = []"
  then have all: "\<forall>c\<in>set (dropWhile is_js_whitespace s). is_js_whitespace c"
    by (simp add: trim_def)
  have "dropWhile is_js_whitespace s = []"
  proof (rule ccontr)
    assume ne: "dropWhile is_js_whitespace s \<noteq> []"
    then have "\<not> is_js_whitespace (hd (dropWhile is_js_whitespace s))"
      by (rule hd_dropWhile)
    moreover have "hd (dropWhile is_js_whitespace s) \<in> set (dropWhile is_js_whitespace s)"
      using ne by simp
    ultimately show False using all by blast
  qed
  then show "\<forall>c\<in>set s. is_js_whitespace c"
    by simp
next
  assume "\<forall>c\<in>set s. is_js_whitespace c"
  then have d: "dropWhile is_js_whitespace s = []"
    by simp
  show "trim s = []" unfolding trim_def d by simp
qed

lemma not_trimmed_iff:
  "not_trimmed x \<longleftrightarrow> (x = None \<or> (\<exists>s. x = Some s \<and> (\<forall>c\<in>set s. is_js_whitespace c)))"
  by (cases x) (simp_all add: not_trimmed_def trim_empty_iff)

section \<open>Lower case\<close>

lemma of_char_lower_char:
  "(of_char (lower_char x) :: nat) =
     (if (65 \<le> (of_char x :: nat) \<and> (of_char x :: nat) \<le> 90)
         \<or> (192 \<le> (of_char x :: nat) \<and> (of_char x :: nat) \<le> 222
             \<and> (of_char x :: nat) \<noteq> 215)
      then of_char x + 32 else of_char x)"
proof -
  have "(of_char x :: nat) < 256" by (rule nat_of_char_less_256)
  then show ?thesis
    by (auto simp: lower_char_def Let_def)
qed

lemma char_eq_iff_nat: "x = y \<longleftrightarrow> (of_char x :: nat) = of_char y"
  by (rule of_char_eq_iff [symmetric])

lemma lower_char_eq_iff:
  assumes "(of_char c :: nat) = k" and "97 \<le> k" and "k \<le> 122"
  shows "lower_char x = c \<longleftrightarrow> (of_char x :: nat) = k \<or> (of_char x :: nat) = k - 32"
proof -
  have lt: "(of_char x :: nat) < 256" by (rule nat_of_char_less_256)
  have "lower_char x = c \<longleftrightarrow> (of_char (lower_char x) :: nat) = k"
    by (subst char_eq_iff_nat) (simp add: assms(1))
  also have "\<dots> \<longleftrightarrow> (of_char x :: nat) = k \<or> (of_char x :: nat) = k - 32"
    unfolding of_char_lower_char using lt assms(2,3) by auto
  finally show ?thesis .
qed

lemma lower_char_p: "lower_char x = CHR ''p'' \<longleftrightarrow> x = CHR ''p'' \<or> x = CHR ''P''"
  by (subst lower_char_eq_iff [where k = 112]) (simp_all add: char_eq_iff_nat [of x])

lemma lower_char_d: "lower_char x = CHR ''d'' \<longleftrightarrow> x = CHR ''d'' \<or> x = CHR ''D''"
  by (subst lower_char_eq_iff [where k = 100]) (simp_all add: char_eq_iff_nat [of x])

lemma lower_char_f: "lower_char x = CHR ''f'' \<longleftrightarrow> x = CHR ''f'' \<or> x = CHR ''F''"
  by (subst lower_char_eq_iff [where k = 102]) (simp_all add: char_eq_iff_nat [of x])

lemma lower_char_dot: "lower_char x = CHR ''.'' \<longleftrightarrow> x = CHR ''.''"
proof -
  have lt: "(of_char x :: nat) < 256" by (rule nat_of_char_less_256)
  have "lower_char x = CHR ''.'' \<longleftrightarrow> (of_char (lower_char x) :: nat) = 46"
    by (subst char_eq_iff_nat) simp
  also have "\<dots> \<longleftrightarrow> (of_char x :: nat) = 46"
    unfolding of_char_lower_char using lt by auto
  also have "\<dots> \<longleftrightarrow> x = CHR ''.''"
    by (simp add: char_eq_iff_nat [of x])
  finally show ?thesis .
qed

lemma endsWith_pdf_iff: "endsWith (toLowerCase n) ''.pdf'' \<longleftrightarrow> has_pdf_extension n"
proof (cases "length n < 4")
  case True
  then have "length (rev n) < 4" by simp
  then have "\<not> has_pdf_extension n"
    by (auto simp: has_pdf_extension_def split: list.splits)
  moreover from True have "\<not> endsWith (toLowerCase n) ''.pdf''"
    by (simp add: endsWith_def toLowerCase_def)
  ultimately show ?thesis by simp
next
  case False
  define pre where "pre = take (length n - 4) n"
  define suf where "suf = drop (length n - 4) n"
  from False have "length suf = Suc (Suc (Suc (Suc 0)))"
    by (simp add: suf_def)
  then obtain dot a b c where suf: "suf = [dot, a, b, c]"
    by (auto simp: length_Suc_conv)
  have "n = pre @ suf"
    by (simp add: pre_def suf_def)
  then have n: "n = pre @ [dot, a, b, c]"
    by (simp add: suf)
  have r: "rev n = c # b # a # dot # rev pre"
    by (simp add: n)
  show ?thesis
    by (simp add: has_pdf_extension_def r)
       (simp add: n endsWith_def toLowerCase_def lower_char_p lower_char_d lower_char_f
          lower_char_dot)
qed

section \<open>The classification service rejects invalid requests before any call\<close>

lemma failed_response_validation:
  "failed_response e msg suggestion (ThrownObject (createValidationError m f)) =
     \<lparr>success = False, data = None,
      response_error =
        Some \<lparr>etype = processing, message = msg,
              details = Some ''An unexpected error occurred'', code = None,
              recoverable = True, suggestedAction = Some suggestion\<rparr>\<rparr>"
  by (simp add: failed_response_def fromUnknown_def createError_def)

lemma classifyText_invalid:
  assumes "validateTextRequest request = Inl (createValidationError m f)"
  shows "classifyText e request =
           (\<lparr>success = False, data = None,
             response_error =
               Some \<lparr>etype = processing, message = ''Classification failed'',
                     details = Some ''An unexpected error occurred'', code = None,
                     recoverable = True,
                     suggestedAction = Some ''Please check your input and try again.''\<rparr>\<rparr>,
            [])"
  by (simp add: assms classifyText_def failed_response_validation)

lemma classifyPDF_invalid:
  assumes "validatePDFRequest request = Inl (createValidationError m f)"
  shows "classifyPDF e request =
           (\<lparr>success = False, data = None,
             response_error =
               Some \<lparr>etype = processing, message = ''PDF classification failed'',
                     details = Some ''An unexpected error occurred'', code = None,
                     recoverable = True,
                     suggestedAction = Some ''Please check your PDF file and try again.''\<rparr>\<rparr>,
            [])"
  by (simp add: assms classifyPDF_def failed_response_validation)

text \<open>
  C6. A text classification request whose text is missing, empty or made of white space
  only fails validation with the error \<open>Text content is required\<close>; \<open>classifyText\<close> sends
  nothing to the backend and returns a failed response without result data.
\<close>

theorem classifyText_blank_text_rejected:
  assumes "request_text request = None
           \<or> (\<exists>s. request_text request = Some s \<and> (\<forall>c\<in>set s. is_js_whitespace c))"
  shows "validateTextRequest request =
           Inl (createValidationError ''Text content is required'' (Some ''text''))
         \<and> classifyText e request =
             (\<lparr>success = False, data = None,
               response_error =
                 Some \<lparr>etype = processing, message = ''Classification failed'',
                       details = Some ''An unexpected error occurred'', code = None,
                       recoverable = True,
                       suggestedAction = Some ''Please check your input and try again.''\<rparr>\<rparr>,
              [])"
proof -
  have "not_trimmed (request_text request)"
    using assms by (simp add: not_trimmed_iff)
  then have v: "validateTextRequest request =
      Inl (createValidationError ''Text content is required'' (Some ''text''))"
    by (simp add: validateTextRequest_def)
  from v classifyText_invalid [OF v] show ?thesis by simp
qed

theorem classifyText_blank_text_rejected_witness:
  "classifyText
     \<lparr>client = (\<lambda>call. \<lparr>b_success = False, b_data = None, b_error = None\<rparr>),
      stringify = (\<lambda>v. ''{}'')\<rparr>
     \<lparr>datasetId = Some ''demo'', config = Some defaultConfig, request_text = Some '' ''\<rparr> =
   (\<lparr>success = False, data = None,
     response_error =
       Some \<lparr>etype = processing, message = ''Classification failed'',
             details = Some ''An unexpected error occurred'', code = None,
             recoverable = True,
             suggestedAction = Some ''Please check your input and try again.''\<rparr>\<rparr>,
    [])"
proof -
  have h: "request_text \<lparr>datasetId = Some ''demo'', config = Some defaultConfig,
                         request_text = Some '' ''\<rparr> = None
           \<or> (\<exists>s. request_text \<lparr>datasetId = Some ''demo'', config = Some defaultConfig,
                                 request_text = Some '' ''\<rparr> = Some s
                  \<and> (\<forall>c\<in>set s. is_js_whitespace c))"
    by (simp add: is_js_whitespace_def)
  from classifyText_blank_text_rejected [OF h] show ?thesis by simp
qed

text \<open>
  C10. \<open>classifyPDF\<close> rejects a request whose file is missing, is empty, is larger than
  50MB or has a name that does not end in \<open>.pdf\<close> in any mix of upper and lower case:
  validation fails, no request is sent to the backend and the response is a failed one
  without result data.
\<close>

theorem classifyPDF_bad_file_rejected:
  assumes "request_file request = None
           \<or> (\<exists>f. request_file request = Some f
                  \<and> (file_size f = 0 \<or> file_size f > 50 * 1024 * 1024
                       \<or> \<not> has_pdf_extension (file_name f)))"
  shows "(\<exists>m. validatePDFFile (request_file request) =
                Inl (createValidationError m (Some ''file'')))
         \<and> classifyPDF e request =
             (\<lparr>success = False, data = None,
               response_error =
                 Some \<lparr>etype = processing, message = ''PDF classification failed'',
                       details = Some ''An unexpected error occurred'', code = None,
                       recoverable = True,
                       suggestedAction = Some ''Please check your PDF file and try again.''\<rparr>\<rparr>,
              [])"
proof -
  have "\<exists>m. validatePDFFile (request_file request) =
      Inl (createValidationError m (Some ''file''))"
  proof (cases "request_file request")
    case None
    then show ?thesis by (auto simp add: validatePDFFile_def)
  next
    case (Some f)
    with assms have bad: "file_size f = 0 \<or> file_size f > maxSize
        \<or> \<not> endsWith (toLowerCase (file_name f)) ''.pdf''"
      by (simp add: maxSize_def endsWith_pdf_iff)
    show ?thesis
    proof (cases "endsWith (toLowerCase (file_name f)) ''.pdf''")
      case False
      with Some show ?thesis by (auto simp add: validatePDFFile_def)
    next
      case True
      show ?thesis
      proof (cases "file_size f > maxSize")
        case True
        with Some \<open>endsWith (toLowerCase (file_name f)) ''.pdf''\<close> show ?thesis
          by (auto simp add: validatePDFFile_def)
      next
        case False
        with bad True have "file_size f = 0" by simp
        with Some True False show ?thesis by (auto simp add: validatePDFFile_def)
      qed
    qed
  qed
  then obtain m where vf: "validatePDFFile (request_file request) =
      Inl (createValidationError m (Some ''file''))" ..
  then have "validatePDFRequest request = Inl (createValidationError m (Some ''file''))"
    by (simp add: validatePDFRequest_def)
  from vf classifyPDF_invalid [OF this] show ?thesis by blast
qed

theorem classifyPDF_bad_file_rejected_witness:
  "classifyPDF
     \<lparr>client = (\<lambda>call. \<lparr>b_success = False, b_data = None, b_error = None\<rparr>),
      stringify = (\<lambda>v. ''{}'')\<rparr>
     \<lparr>datasetId = Some ''demo'', config = Some defaultConfig,
      request_file = Some \<lparr>file_name = ''notes.txt'', file_size = 2048\<rparr>\<rparr> =
   (\<lparr>success = False, data = None,
     response_error =
       Some \<lparr>etype = processing, message = ''PDF classification failed'',
             details = Some ''An unexpected error occurred'', code = None,
             recoverable = True,
             suggestedAction = Some ''Please check your PDF file and try again.''\<rparr>\<rparr>,
    [])"
proof -
  have h: "request_file \<lparr>datasetId = Some ''demo'', config = Some defaultConfig,
              request_file = Some \<lparr>file_name = ''notes.txt'', file_size = 2048\<rparr>\<rparr> = None
           \<or> (\<exists>f. request_file \<lparr>datasetId = Some ''demo'', config = Some defaultConfig,
                      request_file = Some \<lparr>file_name = ''notes.txt'', file_size = 2048\<rparr>\<rparr> = Some f
                  \<and> (file_size f = 0 \<or> file_size f > 50 * 1024 * 1024
                       \<or> \<not> has_pdf_extension (file_name f)))"
    by (simp add: has_pdf_extension_def)
  from classifyPDF_bad_file_rejected [OF h] show ?thesis by simp
qed

section \<open>Responses of the classification service\<close>

lemma after_call_success_data:
  "success (fst (after_call e md msg suggestion call))
   \<Longrightarrow> data (fst (after_call e md msg suggestion call)) \<noteq> None"
  by (auto simp: after_call_def Let_def failed_response_def split: sum.splits if_splits)

lemma classifyText_success_data:
  "success (fst (classifyText e request)) \<Longrightarrow> data (fst (classifyText e request)) \<noteq> None"
  by (auto simp: classifyText_def Let_def failed_response_def
      split: sum.splits option.splits dest: after_call_success_data)

lemma classifyPDF_success_data:
  "success (fst (classifyPDF e request)) \<Longrightarrow> data (fst (classifyPDF e request)) \<noteq> None"
  by (auto simp: classifyPDF_def Let_def failed_response_def
      split: sum.splits option.splits dest: after_call_success_data)

lemma or_number_cases:
  "or_number a b = (if a \<noteq> None \<and> a \<noteq> Some 0 then the a else b)"
  by (cases a) (simp_all add: or_number_def)

text \<open>
  C8. When the backend answers a valid text or PDF request with a result, the confidence of
  the response is the backend's effective score if that is a nonzero number, else its
  similarity score if that is a nonzero number, else 0. So an effective score of exactly
  0 is reported as the similarity score.
\<close>

theorem confidence_falls_back_when_zero:
  assumes "validateTextRequest treq = Inr ()"
    and "config treq = Some tc"
    and "client e (PostClassifyText (request_text treq) (datasetId treq) (to_backend_config tc))
         = \<lparr>b_success = True, b_data = Some r, b_error = be\<rparr>"
    and "validatePDFRequest preq = Inr ()"
    and "config preq = Some pcfg"
    and "client e (UploadClassifyPDF (request_file preq) (datasetId preq) (to_backend_config pcfg))
         = \<lparr>b_success = True, b_data = Some r, b_error = be\<rparr>"
    and "predicted_class r = Some pc"
  shows "\<exists>rt rp.
           fst (classifyText e treq) = \<lparr>success = True, data = Some rt, response_error = None\<rparr>
         \<and> fst (classifyPDF e preq) = \<lparr>success = True, data = Some rp, response_error = None\<rparr>
         \<and> confidence rt =
             (if effective_score r \<noteq> None \<and> effective_score r \<noteq> Some 0
              then the (effective_score r)
              else if similarity_score r \<noteq> None \<and> similarity_score r \<noteq> Some 0
              then the (similarity_score r) else 0)
         \<and> confidence rp = confidence rt
         \<and> (effective_score r = Some 0 \<longrightarrow> confidence rt = similarityScore rt)"
proof -
  obtain rt where t: "after_call e text_metadata ''Classification failed''
        ''Please check your input and try again.''
        (PostClassifyText (request_text treq) (datasetId treq) (to_backend_config tc)) =
      (\<lparr>success = True, data = Some rt, response_error = None\<rparr>,
       [PostClassifyText (request_text treq) (datasetId treq) (to_backend_config tc)])"
    and ct: "confidence rt = or_number (effective_score r) (or_number (similarity_score r) 0)"
    and st: "similarityScore rt = or_number (similarity_score r) 0"
    using assms(3,7) by (simp add: after_call_def transformResult_def)
  obtain rp where p: "after_call e pdf_result_metadata ''PDF classification failed''
        ''Please check your PDF file and try again.''
        (UploadClassifyPDF (request_file preq) (datasetId preq) (to_backend_config pcfg)) =
      (\<lparr>success = True, data = Some rp, response_error = None\<rparr>,
       [UploadClassifyPDF (request_file preq) (datasetId preq) (to_backend_config pcfg)])"
    and cp: "confidence rp = or_number (effective_score r) (or_number (similarity_score r) 0)"
    using assms(6,7) by (simp add: after_call_def transformResult_def)
  have "fst (classifyText e treq) = \<lparr>success = True, data = Some rt, response_error = None\<rparr>"
    using assms(1,2) t by (simp add: classifyText_def)
  moreover have "fst (classifyPDF e preq) =
      \<lparr>success = True, data = Some rp, response_error = None\<rparr>"
    using assms(4,5) p by (simp add: classifyPDF_def)
  moreover have "confidence rt =
      (if effective_score r \<noteq> None \<and> effective_score r \<noteq> Some 0
       then the (effective_score r)
       else if similarity_score r \<noteq> None \<and> similarity_score r \<noteq> Some 0
       then the (similarity_score r) else 0)"
    by (simp only: ct or_number_cases)
  moreover have "confidence rp = confidence rt"
    by (simp only: ct cp)
  moreover have "effective_score r = Some 0 \<longrightarrow> confidence rt = similarityScore rt"
    by (simp add: ct st or_number_def)
  ultimately show ?thesis by blast
qed

lemmas example_eval =
  example_backend_result_def answering_def echoing_def example_text_request_def
  example_pdf_request_def defaultConfig_def

lemma example_text_request_valid:
  "validateTextRequest (example_text_request ''note'' 5) = Inr ()"
  by (simp add: example_eval validateTextRequest_def js_eval)

lemma example_pdf_request_valid: "validatePDFRequest (example_pdf_request k) = Inr ()"
  by (simp add: example_eval validatePDFRequest_def validatePDFFile_def maxSize_def js_eval)

theorem confidence_falls_back_when_zero_witness:
  "\<exists>rt rp.
     fst (classifyText (answering (example_backend_result ''Invoice'' 0 0.81))
            (example_text_request ''note'' 5)) =
       \<lparr>success = True, data = Some rt, response_error = None\<rparr>
   \<and> fst (classifyPDF (answering (example_backend_result ''Invoice'' 0 0.81))
            (example_pdf_request 5)) =
       \<lparr>success = True, data = Some rp, response_error = None\<rparr>
   \<and> confidence rt = 0.81 \<and> confidence rp = 0.81"
proof -
  have c1: "config (example_text_request ''note'' 5) = Some (defaultConfig\<lparr>topKCandidates := 5\<rparr>)"
    by (simp add: example_text_request_def)
  have c2: "config (example_pdf_request 5) = Some (defaultConfig\<lparr>topKCandidates := 5\<rparr>)"
    by (simp add: example_pdf_request_def)
  have b1: "client (answering (example_backend_result ''Invoice'' 0 0.81))
      (PostClassifyText (request_text (example_text_request ''note'' 5))
         (datasetId (example_text_request ''note'' 5))
         (to_backend_config (defaultConfig\<lparr>topKCandidates := 5\<rparr>))) =
      \<lparr>b_success = True, b_data = Some (example_backend_result ''Invoice'' 0 0.81),
       b_error = None\<rparr>"
    by (simp add: answering_def)
  have b2: "client (answering (example_backend_result ''Invoice'' 0 0.81))
      (UploadClassifyPDF (request_file (example_pdf_request 5))
         (datasetId (example_pdf_request 5))
         (to_backend_config (defaultConfig\<lparr>topKCandidates := 5\<rparr>))) =
      \<lparr>b_success = True, b_data = Some (example_backend_result ''Invoice'' 0 0.81),
       b_error = None\<rparr>"
    by (simp add: answering_def)
  have p: "predicted_class (example_backend_result ''Invoice'' 0 0.81) =
      Some \<lparr>name = ''Invoice'', description = None\<rparr>"
    by (simp add: example_backend_result_def)
  from confidence_falls_back_when_zero
    [OF example_text_request_valid c1 b1 example_pdf_request_valid c2 b2 p]
  obtain rt rp where
    t: "fst (classifyText (answering (example_backend_result ''Invoice'' 0 0.81))
              (example_text_request ''note'' 5)) =
        \<lparr>success = True, data = Some rt, response_error = None\<rparr>"
    and q: "fst (classifyPDF (answering (example_backend_result ''Invoice'' 0 0.81))
              (example_pdf_request 5)) =
        \<lparr>success = True, data = Some rp, response_error = None\<rparr>"
    and c: "confidence rt =
        (if effective_score (example_backend_result ''Invoice'' 0 0.81) \<noteq> None
            \<and> effective_score (example_backend_result ''Invoice'' 0 0.81) \<noteq> Some 0
         then the (effective_score (example_backend_result ''Invoice'' 0 0.81))
         else if similarity_score (example_backend_result ''Invoice'' 0 0.81) \<noteq> None
            \<and> similarity_score (example_backend_result ''Invoice'' 0 0.81) \<noteq> Some 0
         then the (similarity_score (example_backend_result ''Invoice'' 0 0.81)) else 0)"
    and d: "confidence rp = confidence rt"
    by blast
  from c have "confidence rt = 0.81"
    by (simp add: example_backend_result_def)
  with t q d show ?thesis by auto
qed

section \<open>Top-K candidates\<close>

text \<open>
  C5, for PDF requests: \<open>validatePDFRequest\<close> never looks at \<open>topKCandidates\<close>. A PDF
  request with \<open>topKCandidates = 0\<close> passes validation, is sent to the backend and yields
  a classification result, while the text request with the same configuration is
  rejected.
\<close>

theorem classifyPDF_topK_unchecked:
  "validatePDFRequest (example_pdf_request 0) = Inr ()
   \<and> snd (classifyPDF (answering (example_backend_result ''Invoice'' 0.81 0.81))
            (example_pdf_request 0)) =
       [UploadClassifyPDF (Some \<lparr>file_name = ''note.pdf'', file_size = 2048\<rparr>) (Some ''demo'')
          \<lparr>use_reranking = False, reranking_model = ''us.amazon.nova-lite-v1:0'',
           use_attribute_validation = False, top_k_candidates = 0\<rparr>]
   \<and> success (fst (classifyPDF (answering (example_backend_result ''Invoice'' 0.81 0.81))
                     (example_pdf_request 0)))
   \<and> data (fst (classifyPDF (answering (example_backend_result ''Invoice'' 0.81 0.81))
                  (example_pdf_request 0))) \<noteq> None
   \<and> validateTextRequest (example_text_request ''note'' 0) =
       Inl (createValidationError ''Top K candidates must be between 1 and 100''
              (Some ''config.topKCandidates''))"
proof -
  have c: "config (example_pdf_request 0) = Some (defaultConfig\<lparr>topKCandidates := 0\<rparr>)"
    by (simp add: example_pdf_request_def)
  have run: "classifyPDF (answering (example_backend_result ''Invoice'' 0.81 0.81))
        (example_pdf_request 0) =
      after_call (answering (example_backend_result ''Invoice'' 0.81 0.81)) pdf_result_metadata
        ''PDF classification failed'' ''Please check your PDF file and try again.''
        (UploadClassifyPDF (request_file (example_pdf_request 0))
           (datasetId (example_pdf_request 0))
           (to_backend_config (defaultConfig\<lparr>topKCandidates := 0\<rparr>)))"
    by (simp add: classifyPDF_def example_pdf_request_valid c)
  have tv: "validateTextRequest (example_text_request ''note'' 0) =
      Inl (createValidationError ''Top K candidates must be between 1 and 100''
             (Some ''config.topKCandidates''))"
    by (simp add: example_eval validateTextRequest_def js_eval)
  have sent: "snd (classifyPDF (answering (example_backend_result ''Invoice'' 0.81 0.81))
            (example_pdf_request 0)) =
       [UploadClassifyPDF (Some \<lparr>file_name = ''note.pdf'', file_size = 2048\<rparr>) (Some ''demo'')
          \<lparr>use_reranking = False, reranking_model = ''us.amazon.nova-lite-v1:0'',
           use_attribute_validation = False, top_k_candidates = 0\<rparr>]"
    unfolding run
    by (simp add: after_call_def transformResult_def example_eval to_backend_config_def
        or_string_def)
  have ok: "success (fst (classifyPDF (answering (example_backend_result ''Invoice'' 0.81 0.81))
                     (example_pdf_request 0)))"
    unfolding run
    by (simp add: after_call_def transformResult_def example_eval)
  from ok have "data (fst (classifyPDF (answering (example_backend_result ''Invoice'' 0.81 0.81))
                  (example_pdf_request 0))) \<noteq> None"
    by (rule classifyPDF_success_data)
  with sent ok tv example_pdf_request_valid show ?thesis by blast
qed

text \<open>
  C9. \<open>handleTopKChange\<close> stores \<open>max(1, min(20, v))\<close> for every integer \<open>v\<close> and changes
  nothing else, so the value it stores lies between 1 and 20. No other handler of the
  component changes \<open>topKCandidates\<close>: a configuration the component hands over has the
  clamped value after a change of the slider and the value it was given otherwise. The
  classification service accepts a text request with \<open>topKCandidates = 100\<close>.
\<close>

theorem handleTopKChange_clamps_to_20:
  "handleTopKChange cfg v = cfg\<lparr>topKCandidates := max 1 (min 20 v)\<rparr>
   \<and> 1 \<le> topKCandidates (handleTopKChange cfg v)
   \<and> topKCandidates (handleTopKChange cfg v) \<le> 20
   \<and> (\<forall>cfg'. onConfigChange availableModels attributesExist cfg ev = Some cfg' \<longrightarrow>
          topKCandidates cfg' =
            (case ev of TopKChange w \<Rightarrow> max 1 (min 20 w) | _ \<Rightarrow> topKCandidates cfg))
   \<and> validateTextRequest (example_text_request ''note'' 100) = Inr ()"
proof -
  have "validateTextRequest (example_text_request ''note'' 100) = Inr ()"
    by (simp add: example_eval validateTextRequest_def js_eval)
  moreover have "\<forall>cfg'. onConfigChange availableModels attributesExist cfg ev = Some cfg' \<longrightarrow>
          topKCandidates cfg' =
            (case ev of TopKChange w \<Rightarrow> max 1 (min 20 w) | _ \<Rightarrow> topKCandidates cfg)"
    by (auto simp: onConfigChange_def handleToggleReranking_def
        handleToggleAttributeValidation_def handleRerankingModelChange_def
        handleTopKChange_def checkAttributes_def
        split: options_event.splits attributes_check.splits if_splits)
  ultimately show ?thesis
    by (simp add: handleTopKChange_def)
qed

theorem handleTopKChange_clamps_to_20_witness:
  "topKCandidates (handleTopKChange defaultConfig 57) = 20
   \<and> topKCandidates (handleTopKChange defaultConfig (- 3)) = 1
   \<and> topKCandidates (handleTopKChange defaultConfig 7) = 7
   \<and> onConfigChange [] True defaultConfig (TopKChange 57)
       = Some (defaultConfig\<lparr>topKCandidates := 20\<rparr>)"
proof -
  have "onConfigChange [] True defaultConfig (TopKChange 57)
       = Some (defaultConfig\<lparr>topKCandidates := 20\<rparr>)"
    by (simp add: onConfigChange_def handleTopKChange_def)
  with handleTopKChange_clamps_to_20 [of defaultConfig 57 "[]" True "TopKChange 57"]
    handleTopKChange_clamps_to_20 [of defaultConfig "- 3" "[]" True "TopKChange 57"]
    handleTopKChange_clamps_to_20 [of defaultConfig 7 "[]" True "TopKChange 57"]
  show ?thesis by simp
qed

section \<open>The classification store keeps results\<close>

lemma store_classifyText_defined: "store_classifyText e request st \<noteq> None"
  using classifyText_success_data [of e request]
  by (auto simp: store_classifyText_def Let_def split: option.splits)

lemma store_classifyPDF_defined: "store_classifyPDF e request st \<noteq> None"
  using classifyPDF_success_data [of e request]
  by (auto simp: store_classifyPDF_def Let_def split: option.splits)

text \<open>
  C7, as the store has it. Every call of the store's \<open>classifyText\<close> ends. A call that
  returns a result stores it as \<open>currentResult\<close> and puts it in front of \<open>resultHistory\<close>,
  which keeps the 50 newest results, so the result stays in the store after it was
  returned. A call that fails leaves \<open>currentResult\<close> and \<open>resultHistory\<close> as they were.
\<close>

theorem store_classifyText_retains_result:
  "store_classifyText e request st \<noteq> None
   \<and> (\<forall>r st'. store_classifyText e request st = Some (Inr r, st') \<longrightarrow>
         currentResult st' = Some r
         \<and> resultHistory st' = take 50 (r # resultHistory st)
         \<and> r \<in> set (resultHistory st')
         \<and> length (resultHistory st') \<le> 50)
   \<and> (\<forall>err st'. store_classifyText e request st = Some (Inl err, st') \<longrightarrow>
         currentResult st' = currentResult st \<and> resultHistory st' = resultHistory st)"
proof (intro conjI allI impI)
  show "store_classifyText e request st \<noteq> None"
    by (rule store_classifyText_defined)
next
  fix r st'
  assume a: "store_classifyText e request st = Some (Inr r, st')"
  then have st': "st' = addToHistory r
      (st\<lparr>isClassifying := True, store_error := None, currentResult := Some r,
          isClassifying := False\<rparr>)"
    by (auto simp: store_classifyText_def Let_def split: if_splits option.splits)
  show "currentResult st' = Some r" by (simp add: st' addToHistory_def)
  show "resultHistory st' = take 50 (r # resultHistory st)" by (simp add: st' addToHistory_def)
  show "r \<in> set (resultHistory st')" by (simp add: st' addToHistory_def)
  show "length (resultHistory st') \<le> 50" by (simp add: st' addToHistory_def)
next
  fix err st'
  assume a: "store_classifyText e request st = Some (Inl err, st')"
  then have st': "st' = st\<lparr>isClassifying := True, store_error := None,
      store_error := Some err, isClassifying := False\<rparr>"
    by (auto simp: store_classifyText_def Let_def split: if_splits option.splits)
  show "currentResult st' = currentResult st" by (simp add: st')
  show "resultHistory st' = resultHistory st" by (simp add: st')
qed

lemma echoing_classifyText:
  "fst (classifyText echoing (example_text_request t 5)) =
     \<lparr>success = True,
      data = Some \<lparr>predictedClass =
                    \<lparr>class_id = replace_whitespace_runs (toLowerCase t), class_name = t,
                     class_description = None\<rparr>,
                  confidence = 0.9, similarityScore = 0.9, rerankScore = None,
                  attributeScore = None, alternatives = [], attributeValidation = None,
                  processingTime = None, metadata = \<lparr>entries = [], pdf_metadata = None\<rparr>\<rparr>,
      response_error = None\<rparr>"
  if "trim t \<noteq> []"
proof -
  have d: "trim ''demo'' \<noteq> []" by (simp add: trim_def is_js_whitespace_def)
  from that d show ?thesis
  by (simp add: classifyText_def validateTextRequest_def example_eval not_trimmed_def
      after_call_def transformResult_def text_metadata_def or_number_def or_string_def)
qed

theorem store_classifyText_retains_result_witness:
  "\<exists>r1 st1 r2 st2.
     store_classifyText echoing (example_text_request ''alpha'' 5) initial_state
       = Some (Inr r1, st1)
   \<and> store_classifyText echoing (example_text_request ''beta'' 5) st1 = Some (Inr r2, st2)
   \<and> class_name (predictedClass r1) = ''alpha''
   \<and> class_name (predictedClass r2) = ''beta''
   \<and> currentResult st2 = Some r2
   \<and> resultHistory st2 = [r2, r1]"
proof -
  have ta: "trim ''alpha'' \<noteq> []" by (simp add: trim_def is_js_whitespace_def)
  have tb: "trim ''beta'' \<noteq> []" by (simp add: trim_def is_js_whitespace_def)
  show ?thesis
    using store_classifyText_retains_result [of echoing "example_text_request ''alpha'' 5" initial_state]
    by (simp add: store_classifyText_def echoing_classifyText [OF ta] echoing_classifyText [OF tb]
        addToHistory_def initial_state_def)
qed

text \<open>
  C7 as stated fails: after two successful calls the store still holds the result of the
  first call, behind the second, in \<open>resultHistory\<close>.
\<close>

theorem store_discards_results_counterexample:
  "\<exists>r1 st1 r2 st2.
     store_classifyText echoing (example_text_request ''alpha'' 5) initial_state
       = Some (Inr r1, st1)
   \<and> store_classifyText echoing (example_text_request ''beta'' 5) st1 = Some (Inr r2, st2)
   \<and> r1 \<noteq> r2
   \<and> currentResult st1 = Some r1
   \<and> r1 \<in> set (resultHistory st2)"
proof -
  have ta: "trim ''alpha'' \<noteq> []" by (simp add: trim_def is_js_whitespace_def)
  have tb: "trim ''beta'' \<noteq> []" by (simp add: trim_def is_js_whitespace_def)
  show ?thesis
    by (simp add: store_classifyText_def echoing_classifyText [OF ta] echoing_classifyText [OF tb]
        addToHistory_def initial_state_def)
qed

section \<open>Rules without conditions\<close>

lemma empty_node_errors:
  "has_empty_node r \<Longrightarrow> rule_errors f r \<noteq> []"
  "some_entry_empty es \<Longrightarrow> entries_errors f i es \<noteq> []"
proof (induction f r and f i es rule: rule_errors_entries_errors.induct)
  case (1 on_condition op cs)
  then show ?case by (cases cs) auto
next
  case (4 on_condition i r es)
  then show ?case by (auto simp: Let_def)
qed auto

text \<open>
  C3. A rule node with an empty list of conditions is invalid input. Both validators
  answer a rule \<open>AND[]\<close> or \<open>OR[]\<close> with \<open>isValid = false\<close> and the one error
  \<open>Rule must have at least one condition\<close>, and they answer \<open>isValid = false\<close> for every
  rule that has such a node at any depth. The evaluator sends nothing to the condition
  judge for such a node and gives it \<open>satisfied = false\<close> with an error.
\<close>

theorem empty_rule_is_invalid:
  "(op = ''AND'' \<or> op = ''OR'' \<longrightarrow>
      validateAttributeRule (AttributeRule (Some op) (Some [])) =
        \<lparr>isValid = False, errors = [''Rule must have at least one condition'']\<rparr>
    \<and> validateRule (AttributeRule (Some op) (Some [])) =
        \<lparr>isValid = False, errors = [''Rule must have at least one condition'']\<rparr>)
   \<and> (has_empty_node r \<longrightarrow>
        \<not> isValid (validateAttributeRule r) \<and> \<not> isValid (validateRule r))
   \<and> evaluate judge doc (Rule bop []) =
       (EvaluationTreeNode (operator_type bop) (Some False) None (Some []) (Some False)
          (Some ''Rule must have at least one condition''), [])
   \<and> satisfied (fst (evaluate judge doc (Rule bop []))) = Some False"
  by (auto simp: validateAttributeRule_def validateRule_def empty_rule_error_def
      empty_node_errors)

theorem empty_rule_is_invalid_witness:
  "validateAttributeRule (AttributeRule (Some ''AND'') (Some [])) =
     \<lparr>isValid = False, errors = [''Rule must have at least one condition'']\<rparr>
   \<and> validateRule (AttributeRule (Some ''OR'') (Some [])) =
     \<lparr>isValid = False, errors = [''Rule must have at least one condition'']\<rparr>
   \<and> validateAttributeRule
       (AttributeRule (Some ''AND'')
          (Some [StringEntry ''mentions a monetary amount'',
                 RuleEntry (AttributeRule (Some ''OR'') (Some []))])) =
     \<lparr>isValid = False,
      errors = [''Nested rule 2: Rule must have at least one condition'']\<rparr>
   \<and> satisfied (fst (evaluate (\<lambda>d doc. JudgmentResult True None) ''note'' (Rule OpAND [])))
     = Some False
   \<and> satisfied (fst (evaluate (\<lambda>d doc. JudgmentResult True None) ''note'' (Rule OpOR [])))
     = Some False"
proof -
  have nested: "validateAttributeRule
       (AttributeRule (Some ''AND'')
          (Some [StringEntry ''mentions a monetary amount'',
                 RuleEntry (AttributeRule (Some ''OR'') (Some []))])) =
     \<lparr>isValid = False,
      errors = [''Nested rule 2: Rule must have at least one condition'']\<rparr>"
    by (simp add: validateAttributeRule_def js_eval)
  from empty_rule_is_invalid [of "''AND''" "AttributeRule (Some ''AND'') (Some [])"
      "\<lambda>d doc. JudgmentResult True None" "''note''" OpAND]
    empty_rule_is_invalid [of "''OR''" "AttributeRule (Some ''AND'') (Some [])"
      "\<lambda>d doc. JudgmentResult True None" "''note''" OpOR]
    nested
  show ?thesis by simp
qed

section \<open>Short-circuit evaluation\<close>

lemma evaluate_children_stop:
  assumes "\<forall>p\<in>set pre. satisfied (fst (evaluate judge doc p)) \<noteq> Some (stops_on op)"
    and "satisfied (fst (evaluate judge doc c)) = Some (stops_on op)"
  shows "evaluate_children judge doc op (pre @ c # rest) =
           (map (\<lambda>p. fst (evaluate judge doc p)) pre
              @ fst (evaluate judge doc c) # map mark_skipped rest,
            concat (map (\<lambda>p. snd (evaluate judge doc p)) pre) @ snd (evaluate judge doc c))"
  using assms
proof (induction pre)
  case Nil
  then show ?case by (auto split: prod.splits)
next
  case (Cons p pre)
  then show ?case by (auto split: prod.splits)
qed

lemma mark_skipped_root:
  "skipped (mark_skipped s) = Some True \<and> satisfied (mark_skipped s) = None"
  by (cases s) simp_all

text \<open>
  C2. An AND node evaluates its children in declared order and stops at the first child
  \<open>c\<close> whose result is \<open>satisfied = false\<close>: the node is not satisfied, the children before
  \<open>c\<close> and \<open>c\<close> itself appear evaluated, every child after \<open>c\<close> appears in its place marked
  \<open>skipped = true\<close> with \<open>satisfied = null\<close>, and the condition judge was called for the
  children up to \<open>c\<close> only. For \<open>AND[c1, c2, c3]\<close> with \<open>c1\<close> judged false, the judge is
  called once, for \<open>c1\<close>.
\<close>

theorem and_short_circuits:
  assumes "\<forall>p\<in>set pre. satisfied (fst (evaluate judge doc p)) \<noteq> Some False"
    and "satisfied (fst (evaluate judge doc c)) = Some False"
  shows "evaluate judge doc (Rule OpAND (pre @ c # rest)) =
           (EvaluationTreeNode T_AND (Some False) None
              (Some (map (\<lambda>p. fst (evaluate judge doc p)) pre
                     @ fst (evaluate judge doc c) # map mark_skipped rest))
              (Some False) None,
            concat (map (\<lambda>p. snd (evaluate judge doc p)) pre) @ snd (evaluate judge doc c))
         \<and> (\<forall>s\<in>set rest. skipped (mark_skipped s) = Some True
                            \<and> satisfied (mark_skipped s) = None)
         \<and> (judge d1 doc = JudgmentResult False conf \<longrightarrow>
               evaluate judge doc (Rule OpAND [Leaf d1, c2, c3]) =
                 (EvaluationTreeNode T_AND (Some False) None
                    (Some [EvaluationTreeNode T_condition (Some False) (Some d1) None
                             (Some False) None,
                           mark_skipped c2, mark_skipped c3])
                    (Some False) None,
                  [d1]))"
proof -
  have "evaluate_children judge doc OpAND (pre @ c # rest) =
      (map (\<lambda>p. fst (evaluate judge doc p)) pre
         @ fst (evaluate judge doc c) # map mark_skipped rest,
       concat (map (\<lambda>p. snd (evaluate judge doc p)) pre) @ snd (evaluate judge doc c))"
    using assms by (intro evaluate_children_stop) simp_all
  then have "evaluate judge doc (Rule OpAND (pre @ c # rest)) =
           (EvaluationTreeNode T_AND (Some False) None
              (Some (map (\<lambda>p. fst (evaluate judge doc p)) pre
                     @ fst (evaluate judge doc c) # map mark_skipped rest))
              (Some False) None,
            concat (map (\<lambda>p. snd (evaluate judge doc p)) pre) @ snd (evaluate judge doc c))"
    using assms(2) by simp
  moreover have "\<forall>s\<in>set rest. skipped (mark_skipped s) = Some True
      \<and> satisfied (mark_skipped s) = None"
    by (simp add: mark_skipped_root)
  moreover have "judge d1 doc = JudgmentResult False conf \<longrightarrow>
               evaluate judge doc (Rule OpAND [Leaf d1, c2, c3]) =
                 (EvaluationTreeNode T_AND (Some False) None
                    (Some [EvaluationTreeNode T_condition (Some False) (Some d1) None
                             (Some False) None,
                           mark_skipped c2, mark_skipped c3])
                    (Some False) None,
                  [d1])"
    by simp
  ultimately show ?thesis by blast
qed

theorem and_short_circuits_witness:
  "evaluate (\<lambda>d doc. JudgmentResult (d = ''lists education'') None) ''note''
     (Rule OpAND
        [Leaf ''lists education'', Leaf ''mentions a monetary amount'',
         Leaf ''identifies payer and payee'',
         Rule OpOR [Leaf ''lists work experience'']]) =
   (EvaluationTreeNode T_AND (Some False) None
      (Some [EvaluationTreeNode T_condition (Some True) (Some ''lists education'') None
               (Some False) None,
             EvaluationTreeNode T_condition (Some False) (Some ''mentions a monetary amount'')
               None (Some False) None,
             EvaluationTreeNode T_condition None (Some ''identifies payer and payee'') None
               (Some True) None,
             EvaluationTreeNode T_OR None None
               (Some [EvaluationTreeNode T_condition None (Some ''lists work experience'') None
                        (Some True) None])
               (Some True) None])
      (Some False) None,
    [''lists education'', ''mentions a monetary amount''])"
proof -
  have pre: "\<forall>p\<in>set [Leaf ''lists education''].
      satisfied (fst (evaluate (\<lambda>d doc. JudgmentResult (d = ''lists education'') None)
                        ''note'' p)) \<noteq> Some False"
    by simp
  have c: "satisfied (fst (evaluate (\<lambda>d doc. JudgmentResult (d = ''lists education'') None)
                        ''note'' (Leaf ''mentions a monetary amount''))) = Some False"
    by simp
  from and_short_circuits [OF pre c, of "[Leaf ''identifies payer and payee'',
         Rule OpOR [Leaf ''lists work experience'']]"]
  show ?thesis by simp
qed

section \<open>Effective scores\<close>

lemma aggregate_member:
  "x \<in> set (aggregate requested reranked ranked)
   \<longleftrightarrow> (\<exists>cs\<in>set ranked. x = score_candidate requested reranked cs)"
  by (auto simp: aggregate_def)

text \<open>
  C1. For every candidate of a ranking: without reranking its effective score is its
  similarity score and it has no rerank score; with reranking its rerank score is the
  score the reranker returned for its class (clamped to \<open>[0, 1]\<close>), its effective score is
  that rerank score wherever the candidate stands in the similarity ranking, and when the
  reranker returned no score for its class its effective score is its similarity score.
\<close>

theorem effective_score_rule:
  assumes "x \<in> set (aggregate requested reranked ranked)"
  shows "(\<not> requested \<longrightarrow> c_effective x = c_similarity x \<and> c_rerank x = None)
         \<and> (requested \<longrightarrow>
               c_rerank x = map_option clamp01 (map_of reranked (c_class x))
               \<and> (\<forall>r. c_rerank x = Some r \<longrightarrow> c_effective x = r)
               \<and> (map_of reranked (c_class x) = None \<longrightarrow> c_effective x = c_similarity x))"
proof -
  from assms obtain cs where x: "x = score_candidate requested reranked cs"
    by (auto simp: aggregate_member)
  show ?thesis
    unfolding x
    by (cases "map_of reranked (fst cs)")
      (simp_all add: score_candidate_def effective_score_of_def Let_def)
qed

theorem effective_score_rule_witness:
  "aggregate True [(resume, 0.9)] [(invoice, 0.81), (resume, 0.35)] =
     [\<lparr>c_class = resume, c_similarity = 0.35, c_rerank = Some 0.9, c_attribute = None,
       c_effective = 0.9\<rparr>,
      \<lparr>c_class = invoice, c_similarity = 0.81, c_rerank = None, c_attribute = None,
       c_effective = 0.81\<rparr>]
   \<and> aggregate False [] [(invoice, 0.81), (resume, 0.35)] =
     [\<lparr>c_class = invoice, c_similarity = 0.81, c_rerank = None, c_attribute = None,
       c_effective = 0.81\<rparr>,
      \<lparr>c_class = resume, c_similarity = 0.35, c_rerank = None, c_attribute = None,
       c_effective = 0.35\<rparr>]"
proof -
  have a: "aggregate True [(resume, 0.9)] [(invoice, 0.81), (resume, 0.35)] =
     [\<lparr>c_class = resume, c_similarity = 0.35, c_rerank = Some 0.9, c_attribute = None,
       c_effective = 0.9\<rparr>,
      \<lparr>c_class = invoice, c_similarity = 0.81, c_rerank = None, c_attribute = None,
       c_effective = 0.81\<rparr>]"
    by (simp add: aggregate_def score_candidate_def effective_score_of_def clamp01_def
        invoice_def resume_def Let_def)
  have b: "aggregate False [] [(invoice, 0.81), (resume, 0.35)] =
     [\<lparr>c_class = invoice, c_similarity = 0.81, c_rerank = None, c_attribute = None,
       c_effective = 0.81\<rparr>,
      \<lparr>c_class = resume, c_similarity = 0.35, c_rerank = None, c_attribute = None,
       c_effective = 0.35\<rparr>]"
    by (simp add: aggregate_def score_candidate_def effective_score_of_def clamp01_def
        invoice_def resume_def Let_def)
  have m: "\<lparr>c_class = resume, c_similarity = 0.35, c_rerank = Some 0.9, c_attribute = None,
       c_effective = 0.9\<rparr> \<in> set (aggregate True [(resume, 0.9)] [(invoice, 0.81), (resume, 0.35)])"
    unfolding a by simp
  from effective_score_rule [OF m] a b show ?thesis by blast
qed

section \<open>Attribute validation\<close>

lemma classify_toggle:
  assumes "classify os document classSet cfg = Inr res"
  shows "\<exists>res'. classify os document classSet (cfg\<lparr>useAttributeValidation := b\<rparr>) = Inr res'
               \<and> predicted res' = predicted res
               \<and> ranked_alternatives res' = ranked_alternatives res
               \<and> c_effective (primaryCandidate res') = c_effective (primaryCandidate res)"
  using assms
  by (auto simp: classify_def Let_def split: if_splits list.splits)

lemma classify_attribute:
  assumes "classify os document classSet cfg = Inr res"
  shows "c_attribute (primaryCandidate res) = map_option attribute_score_of (result_tree res)"
  using assms
  by (auto simp: classify_def Let_def split: if_splits list.splits)

text \<open>
  C4. When a classification result carries an attribute score, it also carries the
  evaluation tree, and the score is 1 if the root of the tree has \<open>satisfied = true\<close> and 0
  otherwise. Switching attribute validation on or off changes neither the predicted class
  nor the alternatives nor the effective score of the primary candidate.
\<close>

theorem attribute_score_is_binary:
  assumes "classify os document classSet cfg = Inr res"
  shows "(\<forall>a. c_attribute (primaryCandidate res) = Some a \<longrightarrow>
            (\<exists>t. result_tree res = Some t
                 \<and> a = (if satisfied t = Some True then 1 else 0))
            \<and> (a = 0 \<or> a = 1))
         \<and> (\<forall>b. \<exists>res'.
               classify os document classSet (cfg\<lparr>useAttributeValidation := b\<rparr>) = Inr res'
               \<and> predicted res' = predicted res
               \<and> ranked_alternatives res' = ranked_alternatives res
               \<and> c_effective (primaryCandidate res') = c_effective (primaryCandidate res))"
proof (intro conjI allI impI)
  fix a
  assume a: "c_attribute (primaryCandidate res) = Some a"
  with classify_attribute [OF assms]
  have "map_option attribute_score_of (result_tree res) = Some a"
    by simp
  then obtain t where t: "result_tree res = Some t" and at: "a = attribute_score_of t"
    by (cases "result_tree res") auto
  from t at show "\<exists>t. result_tree res = Some t \<and> a = (if satisfied t = Some True then 1 else 0)"
    by (simp add: attribute_score_of_def)
  from at show "a = 0 \<or> a = 1"
    by (simp add: attribute_score_of_def)
next
  fix b
  from classify_toggle [OF assms]
  show "\<exists>res'. classify os document classSet (cfg\<lparr>useAttributeValidation := b\<rparr>) = Inr res'
               \<and> predicted res' = predicted res
               \<and> ranked_alternatives res' = ranked_alternatives res
               \<and> c_effective (primaryCandidate res') = c_effective (primaryCandidate res)" .
qed

lemma scenario_run:
  "classify scenario ''note'' scenario_classes (defaultConfig\<lparr>useAttributeValidation := True\<rparr>) =
     Inr \<lparr>predicted = invoice,
          primaryCandidate =
            \<lparr>c_class = invoice, c_similarity = 0.81, c_rerank = None, c_attribute = Some 1,
             c_effective = 0.81\<rparr>,
          ranked_alternatives =
            [\<lparr>c_class = resume, c_similarity = 0.35, c_rerank = None, c_attribute = None,
              c_effective = 0.35\<rparr>],
          result_tree =
            Some (EvaluationTreeNode T_AND (Some True) None
                    (Some [EvaluationTreeNode T_condition (Some True)
                             (Some ''mentions a monetary amount'') None (Some False) None,
                           EvaluationTreeNode T_condition (Some True)
                             (Some ''identifies payer and payee'') None (Some False) None])
                    (Some False) None)\<rparr>"
  by (simp add: classify_def scenario_def scenario_classes_def defaultConfig_def aggregate_def
      score_candidate_def effective_score_of_def clamp01_def invoice_def resume_def Let_def
      attribute_score_of_def)

theorem attribute_score_is_binary_witness:
  "\<exists>res res'.
     classify scenario ''note'' scenario_classes
       (defaultConfig\<lparr>useAttributeValidation := True\<rparr>) = Inr res
   \<and> c_attribute (primaryCandidate res) = Some 1
   \<and> predicted res = invoice
   \<and> classify scenario ''note'' scenario_classes
       (defaultConfig\<lparr>useAttributeValidation := True, useAttributeValidation := False\<rparr>)
       = Inr res'
   \<and> predicted res' = invoice"
  using attribute_score_is_binary [OF scenario_run] scenario_run
  by auto

end
